theory Spec2Isabelle
  imports Main "HOL-Library.Sublist"
begin

section \<open>Python strings\<close>

text \<open>
  A Python \<open>str\<close> is a sequence of Unicode code points. A code point is a natural
  number, so that the whitespace test of \<open>str.strip\<close> can be written for the whole
  of Unicode and not only for one byte. \<open>str\<close> turns an ASCII literal into such a
  sequence.
\<close>

type_synonym py_str = "nat list"

definition str :: "string \<Rightarrow> py_str" where
  "str s = map of_char s"

definition dot :: nat where
  "dot = 46"

definition slash :: nat where
  "slash = 47"

text \<open>
  \<open>str.isspace\<close> for one character, the table of CPython's
  \<open>_PyUnicode_IsWhitespace\<close>: U+0009..U+000D, U+001C..U+0020, U+0085, U+00A0,
  U+1680, U+2000..U+200A, U+2028, U+2029, U+202F, U+205F, U+3000.
\<close>

definition py_isspace :: "nat \<Rightarrow> bool" where
  "py_isspace c \<longleftrightarrow>
     (9 \<le> c \<and> c \<le> 13) \<or> (28 \<le> c \<and> c \<le> 32) \<or> c = 133 \<or> c = 160 \<or> c = 5760 \<or>
     (8192 \<le> c \<and> c \<le> 8202) \<or> c = 8232 \<or> c = 8233 \<or> c = 8239 \<or> c = 8287 \<or>
     c = 12288"

text \<open>\<open>s.strip()\<close>: whitespace is removed from the left end, then from the right end.\<close>

definition py_strip :: "py_str \<Rightarrow> py_str" where
  "py_strip s = rev (dropWhile py_isspace (rev (dropWhile py_isspace s)))"

text \<open>
  \<open>s.split(sep)\<close> for a separator of one character, which is how the configuration
  calls it (\<open>release.split('.')\<close>): the string is cut at every occurrence of the
  separator, empty pieces are kept, and the result is never empty
  (\<open>''.split('.') == ['']\<close>).
\<close>

fun py_split :: "nat \<Rightarrow> py_str \<Rightarrow> py_str list" where
  "py_split sep [] = [[]]"
| "py_split sep (c # cs) =
     (if c = sep then [] # py_split sep cs
      else (case py_split sep cs of
              [] \<Rightarrow> [[c]]
            | w # ws \<Rightarrow> (c # w) # ws))"

text \<open>\<open>sep.join(xs)\<close>.\<close>

fun py_join :: "py_str \<Rightarrow> py_str list \<Rightarrow> py_str" where
  "py_join sep [] = []"
| "py_join sep [x] = x"
| "py_join sep (x # y # ys) = x @ sep @ py_join sep (y # ys)"

section \<open>Paths (posixpath)\<close>

text \<open>
  \<open>os.path.dirname(p)\<close>: everything up to and including the last slash; trailing
  slashes of that head are removed unless the head consists of slashes only.
\<close>

definition os_path_dirname :: "py_str \<Rightarrow> py_str" where
  "os_path_dirname p =
     (let head = rev (dropWhile (\<lambda>c. c \<noteq> slash) (rev p))
      in if head \<noteq> [] \<and> head \<noteq> replicate (length head) slash
         then rev (dropWhile (\<lambda>c. c = slash) (rev head))
         else head)"

text \<open>\<open>os.path.join(a, b)\<close> for two components.\<close>

definition os_path_join :: "py_str \<Rightarrow> py_str \<Rightarrow> py_str" where
  "os_path_join a b =
     (if (b \<noteq> [] \<and> hd b = slash) \<or> a = [] then b
      else if last a = slash then a @ b
      else a @ [slash] @ b)"

section \<open>The file system\<close>

text \<open>
  A file system maps a path, as the program hands it to the operating system, to what
  the path resolves to after following \<open>..\<close> and symbolic links: nothing (also for
  a dangling link), or a node. A regular file carries the text that \<open>f.read()\<close>
  returns for it in text mode, that is, after decoding and newline translation.
  \<open>Undecodable\<close> is a regular file whose bytes the codec rejects, \<open>Unreadable\<close> a
  node that \<open>open\<close> may not read.
\<close>

datatype fs_node = RegularFile py_str | Undecodable | Unreadable | Directory

type_synonym filesystem = "py_str \<Rightarrow> fs_node option"

datatype py_error =
  FileNotFoundError | IsADirectoryError | PermissionError | UnicodeDecodeError

datatype fs_event = Stat py_str | Open py_str | Read py_str | Close py_str

definition os_path_exists :: "filesystem \<Rightarrow> py_str \<Rightarrow> bool" where
  "os_path_exists fs p = (fs p \<noteq> None)"

definition py_open :: "filesystem \<Rightarrow> py_str \<Rightarrow> py_error + fs_node" where
  "py_open fs p =
     (case fs p of
        None \<Rightarrow> Inl FileNotFoundError
      | Some Directory \<Rightarrow> Inl IsADirectoryError
      | Some Unreadable \<Rightarrow> Inl PermissionError
      | Some n \<Rightarrow> Inr n)"

definition py_read :: "fs_node \<Rightarrow> py_error + py_str" where
  "py_read f = (case f of RegularFile txt \<Rightarrow> Inr txt | _ \<Rightarrow> Inl UnicodeDecodeError)"

section \<open>The configuration module\<close>

record conf =
  project :: py_str
  copyright :: py_str
  author :: py_str
  release :: py_str
  version :: py_str
  extensions :: "py_str list"
  myst_enable_extensions :: "py_str list"
  html_theme :: py_str
  source_suffix :: "(py_str \<times> py_str) list"
  master_doc :: py_str
  templates_path :: "py_str list"
  exclude_patterns :: "py_str list"

text \<open>Line 12: the path of the version file, from the module's \<open>__file__\<close>.\<close>

definition version_file :: "py_str \<Rightarrow> py_str" where
  "version_file file = os_path_join (os_path_dirname file) (str ''../../.version'')"

text \<open>
  Lines 13 to 17. The result is the list of file-system operations performed and
  either the exception that ends the module or the value of \<open>release\<close>. The
  \<open>with\<close> block closes the file also when \<open>read\<close> raises; when \<open>open\<close> raises
  there is nothing to close.
\<close>

definition read_release :: "filesystem \<Rightarrow> py_str \<Rightarrow> fs_event list \<times> (py_error + py_str)" where
  "read_release fs vf =
     (if os_path_exists fs vf then
        (case py_open fs vf of
           Inl e \<Rightarrow> ([Stat vf, Open vf], Inl e)
         | Inr f \<Rightarrow>
             (case py_read f of
                Inl e \<Rightarrow> ([Stat vf, Open vf, Read vf, Close vf], Inl e)
              | Inr txt \<Rightarrow> ([Stat vf, Open vf, Read vf, Close vf], Inr (py_strip txt))))
      else ([Stat vf], Inr (str ''0.0.0'')))"

text \<open>Line 19: \<open>'.'.join(release.split('.')[:2])\<close>.\<close>

definition version_of :: "py_str \<Rightarrow> py_str" where
  "version_of rel = py_join (str ''.'') (take 2 (py_split dot rel))"

text \<open>
  The whole module, run with \<open>__file__ = file\<close> on the file system \<open>fs\<close>: the
  operations performed, and the exception raised or the variables the module defines.
\<close>

definition conf_py :: "filesystem \<Rightarrow> py_str \<Rightarrow> fs_event list \<times> (py_error + conf)" where
  "conf_py fs file =
     (case read_release fs (version_file file) of
        (tr, Inl e) \<Rightarrow> (tr, Inl e)
      | (tr, Inr rel) \<Rightarrow>
          (tr, Inr \<lparr>
             project = str ''Axion-Common'',
             copyright = str ''2026, Bugra Tufan'',
             author = str ''Bugra Tufan'',
             release = rel,
             version = version_of rel,
             extensions = [str ''sphinx.ext.viewcode'', str ''sphinx.ext.intersphinx'',
                           str ''myst_parser''],
             myst_enable_extensions = [str ''colon_fence'', str ''deflist''],
             html_theme = str ''sphinx_rtd_theme'',
             source_suffix = [(str ''.rst'', str ''restructuredtext''),
                              (str ''.md'', str ''markdown'')],
             master_doc = str ''index'',
             templates_path = [str ''_templates''],
             exclude_patterns = []
           \<rparr>))"

section \<open>Bytes on disk and the codec of text mode\<close>

text \<open>
  Line 14 is \<open>open(version_file)\<close>, with no \<open>encoding=\<close>: text mode decodes the
  bytes of the file with the codec of the process's locale and then turns \<open>\r\n\<close>
  and \<open>\r\<close> into \<open>\n\<close> (universal newlines). A byte is a \<open>char\<close>, a codec a
  function from bytes to text that fails where Python raises \<open>UnicodeDecodeError\<close>.
  The codec is a parameter of a run; \<open>utf-8\<close>, \<open>latin-1\<close> and \<open>ascii\<close> are three
  codecs a locale can select.
\<close>

type_synonym codec = "string \<Rightarrow> py_str option"

definition codec_latin_1 :: codec where
  "codec_latin_1 bs = Some (map of_char bs)"

definition codec_ascii :: codec where
  "codec_ascii bs =
     (if list_all (\<lambda>b. (of_char b :: nat) < 128) bs then Some (map of_char bs) else None)"

text \<open>
  Strict UTF-8 on byte values, as the decoder's state machine: \<open>need\<close> continuation
  bytes are still to come for the code point collected in \<open>acc\<close>, and the next one
  must lie in \<open>lo..hi\<close>. A byte below 128 stands for itself; a lead byte C2..DF,
  E0..EF or F0..F4 asks for one, two or three continuation bytes 80..BF, the first of
  them narrowed after E0 (A0..BF), ED (80..9F), F0 (90..BF) and F4 (80..8F), which
  excludes overlong forms, surrogates and code points above U+10FFFF. Input that ends
  inside a sequence is rejected.
\<close>

fun utf8_decode :: "nat \<Rightarrow> nat \<Rightarrow> nat \<Rightarrow> nat \<Rightarrow> nat list \<Rightarrow> py_str option" where
  "utf8_decode need acc lo hi [] = (if need = 0 then Some [] else None)"
| "utf8_decode need acc lo hi (b # bs) =
     (if need = 0 then
        (if b < 128 then map_option ((#) b) (utf8_decode 0 0 128 191 bs)
         else if 194 \<le> b \<and> b \<le> 223 then utf8_decode 1 (b - 192) 128 191 bs
         else if 224 \<le> b \<and> b \<le> 239 then
           utf8_decode 2 (b - 224) (if b = 224 then 160 else 128) (if b = 237 then 159 else 191) bs
         else if 240 \<le> b \<and> b \<le> 244 then
           utf8_decode 3 (b - 240) (if b = 240 then 144 else 128) (if b = 244 then 143 else 191) bs
         else None)
      else if lo \<le> b \<and> b \<le> hi then
        (if need = 1 then map_option ((#) (acc * 64 + (b - 128))) (utf8_decode 0 0 128 191 bs)
         else utf8_decode (need - 1) (acc * 64 + (b - 128)) 128 191 bs)
      else None)"

definition codec_utf_8 :: codec where
  "codec_utf_8 bs = utf8_decode 0 0 128 191 (map of_char bs)"

text \<open>Universal newlines, applied to the decoded text.\<close>

fun universal_newlines :: "py_str \<Rightarrow> py_str" where
  "universal_newlines [] = []"
| "universal_newlines [c] = [if c = 13 then 10 else c]"
| "universal_newlines (c # d # ds) =
     (if c = 13 \<and> d = 10 then 10 # universal_newlines ds
      else if c = 13 then 10 # universal_newlines (d # ds)
      else c # universal_newlines (d # ds))"

text \<open>
  What is on the disk at a path: a regular file with its bytes, a directory, or a node
  the process may not open for reading. \<open>text_view\<close> is the file system as text mode
  under a codec presents it to lines 13 to 15.
\<close>

datatype disk_node = FileBytes string | DirNode | NoPermission

type_synonym disk = "py_str \<Rightarrow> disk_node option"

definition text_view :: "codec \<Rightarrow> disk \<Rightarrow> filesystem" where
  "text_view dec d p =
     (case d p of
        None \<Rightarrow> None
      | Some (FileBytes bs) \<Rightarrow>
          (case dec bs of
             None \<Rightarrow> Some Undecodable
           | Some t \<Rightarrow> Some (RegularFile (universal_newlines t)))
      | Some DirNode \<Rightarrow> Some Directory
      | Some NoPermission \<Rightarrow> Some Unreadable)"

section \<open>Splitting and joining\<close>

lemma py_split_nonempty: "py_split sep s \<noteq> []"
  by (induction s) (auto split: list.splits)

lemma py_split_no_sep: "sep \<notin> set s \<Longrightarrow> py_split sep s = [s]"
  by (induction s) auto

lemma py_split_append: "sep \<notin> set a \<Longrightarrow> py_split sep (a @ sep # s) = a # py_split sep s"
  by (induction a) auto

lemma py_split_pieces: "w \<in> set (py_split sep s) \<Longrightarrow> sep \<notin> set w"
  by (induction s arbitrary: w) (auto split: if_splits list.splits)

lemma py_join_Cons: "xs \<noteq> [] \<Longrightarrow> py_join sep (x # xs) = x @ sep @ py_join sep xs"
  by (cases xs) auto

lemma py_join_split: "py_join [sep] (py_split sep s) = s"
proof (induction s)
  case Nil
  show ?case by simp
next
  case (Cons c cs)
  show ?case
  proof (cases "c = sep")
    case True
    with Cons show ?thesis by (simp add: py_join_Cons py_split_nonempty)
  next
    case False
    obtain w ws where ws: "py_split sep cs = w # ws"
      using py_split_nonempty [of sep cs] by (cases "py_split sep cs") auto
    with Cons False show ?thesis by (cases ws) auto
  qed
qed

lemma py_split_join:
  "xs \<noteq> [] \<Longrightarrow> list_all (\<lambda>w. sep \<notin> set w) xs \<Longrightarrow> py_split sep (py_join [sep] xs) = xs"
proof (induction xs)
  case Nil
  then show ?case by simp
next
  case (Cons x xs)
  show ?case
  proof (cases xs)
    case Nil
    with Cons.prems show ?thesis by (simp add: py_split_no_sep)
  next
    case (Cons y ys)
    with Cons.IH Cons.prems show ?thesis by (simp add: py_split_append)
  qed
qed

lemma py_join_take_prefix: "prefix (py_join sep (take n xs)) (py_join sep xs)"
proof (induction xs arbitrary: n)
  case Nil
  show ?case by simp
next
  case (Cons x xs)
  show ?case
  proof (cases n)
    case 0
    then show ?thesis by simp
  next
    case (Suc m)
    show ?thesis
    proof (cases "take m xs = []")
      case True
      with Suc show ?thesis by (cases xs) auto
    next
      case False
      then have "xs \<noteq> []" by auto
      with False Suc Cons.IH [of m] show ?thesis by (simp add: py_join_Cons)
    qed
  qed
qed

section \<open>The version expression\<close>

lemma str_dot: "str ''.'' = [dot]"
  by (simp add: str_def dot_def)

lemma py_split_length: "length (py_split sep s) = Suc (count_list s sep)"
  by (induction s) (auto split: list.splits)

lemma py_split_single_iff: "length (py_split sep s) < 2 \<longleftrightarrow> sep \<notin> set s"
  by (simp add: py_split_length count_list_0_iff)

lemma take2_pieces: "list_all (\<lambda>w. sep \<notin> set w) (take n (py_split sep s))"
  by (auto simp: list_all_iff dest: in_set_takeD py_split_pieces)

lemma version_of_prefix: "prefix (version_of r) r"
proof -
  have "prefix (py_join [dot] (take 2 (py_split dot r))) (py_join [dot] (py_split dot r))"
    by (rule py_join_take_prefix)
  then show ?thesis
    by (simp add: version_of_def str_dot py_join_split)
qed

lemma py_split_version_of: "py_split dot (version_of r) = take 2 (py_split dot r)"
  unfolding version_of_def str_dot
  by (rule py_split_join) (simp_all add: py_split_nonempty take2_pieces)

lemma version_of_no_dot: "dot \<notin> set r \<Longrightarrow> version_of r = r"
  by (simp add: version_of_def py_split_no_sep)

lemma version_of_two:
  assumes "2 \<le> length (py_split dot r)"
  shows "\<exists>a b rest. take 2 (py_split dot r) = [a, b] \<and> r = a @ dot # b @ rest \<and>
           dot \<notin> set a \<and> dot \<notin> set b \<and> (rest = [] \<or> (\<exists>t. rest = dot # t)) \<and>
           version_of r = a @ dot # b"
proof -
  from assms obtain a b ys where xs: "py_split dot r = a # b # ys"
  proof (cases "py_split dot r")
    case Nil
    with assms show ?thesis by simp
  next
    case (Cons a bs)
    with assms that show ?thesis by (cases bs) auto
  qed
  have "a \<in> set (py_split dot r)" "b \<in> set (py_split dot r)"
    by (simp_all add: xs)
  then have nodot: "dot \<notin> set a" "dot \<notin> set b"
    by (auto dest: py_split_pieces)
  have "r = py_join [dot] (a # b # ys)"
    using py_join_split [of dot r] by (simp add: xs)
  then have r: "r = a @ dot # b @ (if ys = [] then [] else dot # py_join [dot] ys)"
    by (cases ys) auto
  have v: "version_of r = a @ dot # b"
    by (simp add: version_of_def xs str_dot)
  have t: "take 2 (py_split dot r) = [a, b]"
    by (simp add: xs)
  show ?thesis
    using r v t nodot by (intro exI [of _ a] exI [of _ b] exI [of _ "if ys = [] then [] else dot # py_join [dot] ys"]) auto
qed

lemma version_of_dots: "count_list (version_of r) dot \<le> 1"
proof -
  have "length (py_split dot (version_of r)) \<le> 2"
    by (simp add: py_split_version_of)
  then show ?thesis
    by (simp add: py_split_length)
qed

lemma version_of_few_dots: "count_list r dot \<le> 1 \<Longrightarrow> version_of r = r"
proof -
  assume "count_list r dot \<le> 1"
  then have "length (py_split dot r) \<le> 2"
    by (simp add: py_split_length)
  then have "take 2 (py_split dot r) = py_split dot r"
    by simp
  then show ?thesis
    by (simp add: version_of_def str_dot py_join_split)
qed

lemma version_of_cut: "r = version_of r \<or> (\<exists>t. r = version_of r @ dot # t)"
proof (cases "2 \<le> length (py_split dot r)")
  case True
  from version_of_two [OF True] show ?thesis
    by auto
next
  case False
  then have "dot \<notin> set r"
    using py_split_single_iff [of dot r] by simp
  then show ?thesis
    by (simp add: version_of_no_dot)
qed

lemma version_of_one_dot: "dot \<in> set r \<Longrightarrow> count_list (version_of r) dot = 1"
proof -
  assume "dot \<in> set r"
  then have "2 \<le> length (py_split dot r)"
    using py_split_single_iff [of dot r] by simp
  from version_of_two [OF this] obtain a b where
    "version_of r = a @ dot # b" "dot \<notin> set a" "dot \<notin> set b"
    by blast
  then show ?thesis
    by (simp add: count_list_0_iff)
qed

section \<open>Running the module\<close>

lemma read_release_absent:
  "fs vf = None \<Longrightarrow> read_release fs vf = ([Stat vf], Inr (str ''0.0.0''))"
  by (simp add: read_release_def os_path_exists_def)

lemma read_release_regular:
  "fs vf = Some (RegularFile txt) \<Longrightarrow>
     read_release fs vf = ([Stat vf, Open vf, Read vf, Close vf], Inr (py_strip txt))"
  by (simp add: read_release_def os_path_exists_def py_open_def py_read_def)

lemma read_release_undecodable:
  "fs vf = Some Undecodable \<Longrightarrow>
     read_release fs vf = ([Stat vf, Open vf, Read vf, Close vf], Inl UnicodeDecodeError)"
  by (simp add: read_release_def os_path_exists_def py_open_def py_read_def)

lemma read_release_unreadable:
  "fs vf = Some Unreadable \<Longrightarrow> read_release fs vf = ([Stat vf, Open vf], Inl PermissionError)"
  by (simp add: read_release_def os_path_exists_def py_open_def)

lemma read_release_directory:
  "fs vf = Some Directory \<Longrightarrow> read_release fs vf = ([Stat vf, Open vf], Inl IsADirectoryError)"
  by (simp add: read_release_def os_path_exists_def py_open_def)

lemma conf_py_returns:
  "read_release fs (version_file file) = (tr, Inr rel) \<Longrightarrow>
     \<exists>c. conf_py fs file = (tr, Inr c) \<and> release c = rel \<and> version c = version_of rel"
  by (simp add: conf_py_def)

lemma conf_py_Inr:
  "snd (conf_py fs file) = Inr c \<Longrightarrow>
     snd (read_release fs (version_file file)) = Inr (release c) \<and> version c = version_of (release c)"
  by (auto simp: conf_py_def split: prod.splits sum.splits)

lemma conf_py_regular:
  "fs (version_file file) = Some (RegularFile txt) \<Longrightarrow>
     \<exists>c. conf_py fs file =
           ([Stat (version_file file), Open (version_file file), Read (version_file file),
             Close (version_file file)], Inr c) \<and>
         release c = py_strip txt \<and> version c = version_of (py_strip txt)"
  by (simp add: conf_py_def read_release_regular)

lemma conf_py_absent:
  "fs (version_file file) = None \<Longrightarrow>
     \<exists>c. conf_py fs file = ([Stat (version_file file)], Inr c) \<and> release c = str ''0.0.0''"
  by (simp add: conf_py_def read_release_absent)

lemma conf_py_directory:
  "fs (version_file file) = Some Directory \<Longrightarrow>
     conf_py fs file = ([Stat (version_file file), Open (version_file file)], Inl IsADirectoryError)"
  by (simp add: conf_py_def read_release_directory)

lemma conf_py_unreadable:
  "fs (version_file file) = Some Unreadable \<Longrightarrow>
     conf_py fs file = ([Stat (version_file file), Open (version_file file)], Inl PermissionError)"
  by (simp add: conf_py_def read_release_unreadable)

lemma conf_py_undecodable:
  "fs (version_file file) = Some Undecodable \<Longrightarrow>
     conf_py fs file =
       ([Stat (version_file file), Open (version_file file), Read (version_file file),
         Close (version_file file)], Inl UnicodeDecodeError)"
  by (simp add: conf_py_def read_release_undecodable)

lemma node_cases:
  obtains (absent) "fs p = None"
  | (regular) t where "fs p = Some (RegularFile t)"
  | (undecodable) "fs p = Some Undecodable"
  | (unreadable) "fs p = Some Unreadable"
  | (directory) "fs p = Some Directory"
proof (cases "fs p")
  case None
  then show ?thesis by (rule absent)
next
  case (Some n)
  then show ?thesis
    by (cases n) (auto intro: regular undecodable unreadable directory)
qed

lemma conf_py_static:
  "snd (conf_py fs file) = Inr c \<Longrightarrow>
     extensions c = [str ''sphinx.ext.viewcode'', str ''sphinx.ext.intersphinx'', str ''myst_parser''] \<and>
     html_theme c = str ''sphinx_rtd_theme'' \<and>
     source_suffix c = [(str ''.rst'', str ''restructuredtext''), (str ''.md'', str ''markdown'')]"
  by (auto simp: conf_py_def split: prod.splits sum.splits)

lemma text_view_same: "d p = d' p' \<Longrightarrow> text_view dec d p = text_view dec d' p'"
  by (simp add: text_view_def)

lemma conf_py_same_node:
  assumes "fs (version_file file) = fs' (version_file file')"
  shows "snd (conf_py fs file) = snd (conf_py fs' file')"
proof -
  have "snd (read_release fs (version_file file)) = snd (read_release fs' (version_file file'))"
    using assms
    by (simp add: read_release_def os_path_exists_def py_open_def split: sum.splits)
  then show ?thesis
    by (auto simp: conf_py_def split: prod.splits sum.splits)
qed

lemma conf_py_trace:
  "set (fst (conf_py fs file)) \<subseteq>
     {Stat (version_file file), Open (version_file file), Read (version_file file),
      Close (version_file file)}"
proof (cases rule: node_cases [of fs "version_file file"])
  case absent
  with conf_py_absent [of fs "file"] show ?thesis by auto
next
  case (regular t)
  with conf_py_regular [of fs "file" t] show ?thesis by auto
next
  case undecodable
  with conf_py_undecodable [of fs "file"] show ?thesis by simp
next
  case unreadable
  with conf_py_unreadable [of fs "file"] show ?thesis by simp
next
  case directory
  with conf_py_directory [of fs "file"] show ?thesis by simp
qed

lemma version_file_example:
  "version_file (str ''/repo/docs/source/conf.py'') = str ''/repo/docs/source/../../.version''"
  by (simp add: version_file_def os_path_join_def os_path_dirname_def str_def slash_def)

lemma version_file_relative:
  "version_file (str ''conf.py'') = str ''../../.version''"
  by (simp add: version_file_def os_path_join_def os_path_dirname_def str_def slash_def)

section \<open>Properties of the version resolver\<close>

text \<open>
  C1. When the version file is a readable text file and its stripped text \<open>r\<close> has
  at least two segments, the module completes, \<open>release\<close> is \<open>r\<close>, and
  \<open>version\<close> is \<open>a.b\<close>, where \<open>a\<close> and \<open>b\<close> are the first two segments
  of \<open>r\<close>: they hold no dot, and \<open>r\<close> is \<open>a.b\<close> followed by nothing or by a dot
  and more text.
\<close>

theorem version_first_two_segments:
  assumes "fs (version_file file) = Some (RegularFile txt)"
    and "py_strip txt = r"
    and "2 \<le> length (py_split dot r)"
  shows "\<exists>c a b rest. snd (conf_py fs file) = Inr c \<and> release c = r \<and>
           take 2 (py_split dot r) = [a, b] \<and> r = a @ dot # b @ rest \<and>
           dot \<notin> set a \<and> dot \<notin> set b \<and> (rest = [] \<or> (\<exists>t. rest = dot # t)) \<and>
           version c = a @ dot # b"
proof -
  from assms(1,2) have "read_release fs (version_file file) =
      ([Stat (version_file file), Open (version_file file), Read (version_file file),
        Close (version_file file)], Inr r)"
    by (simp add: read_release_regular)
  then obtain c where c: "snd (conf_py fs file) = Inr c" "release c = r" "version c = version_of r"
    using conf_py_returns by fastforce
  from version_of_two [OF assms(3)] c show ?thesis
    by metis
qed

theorem version_first_two_segments_witness:
  "[str ''/repo/docs/source/../../.version'' \<mapsto> RegularFile (str ''10.20.30.40'' @ [10])]
     (version_file (str ''/repo/docs/source/conf.py''))
     = Some (RegularFile (str ''10.20.30.40'' @ [10])) \<and>
   py_strip (str ''10.20.30.40'' @ [10]) = str ''10.20.30.40'' \<and>
   2 \<le> length (py_split dot (str ''10.20.30.40'')) \<and>
   (\<exists>c a b rest.
      snd (conf_py [str ''/repo/docs/source/../../.version'' \<mapsto>
                      RegularFile (str ''10.20.30.40'' @ [10])]
             (str ''/repo/docs/source/conf.py'')) = Inr c \<and>
      release c = str ''10.20.30.40'' \<and>
      take 2 (py_split dot (str ''10.20.30.40'')) = [a, b] \<and>
      str ''10.20.30.40'' = a @ dot # b @ rest \<and>
      dot \<notin> set a \<and> dot \<notin> set b \<and> (rest = [] \<or> (\<exists>t. rest = dot # t)) \<and>
      version c = a @ dot # b)"
proof -
  let ?fs = "[str ''/repo/docs/source/../../.version'' \<mapsto> RegularFile (str ''10.20.30.40'' @ [10])]"
  have h1: "?fs (version_file (str ''/repo/docs/source/conf.py''))
              = Some (RegularFile (str ''10.20.30.40'' @ [10]))"
    by (simp add: version_file_example)
  have h2: "py_strip (str ''10.20.30.40'' @ [10]) = str ''10.20.30.40''"
    by (simp add: py_strip_def py_isspace_def str_def)
  have h3: "2 \<le> length (py_split dot (str ''10.20.30.40''))"
    by (simp add: str_def dot_def)
  from version_first_two_segments [of ?fs "str ''/repo/docs/source/conf.py''", OF h1 h2 h3] h1 h2 h3
  show ?thesis
    by blast
qed

text \<open>
  C2, as the module computes it. When nothing exists at the path of the version file,
  the module only tests for the file, completes without an exception, and sets
  \<open>release\<close> to \<open>0.0.0\<close> and \<open>version\<close> to \<open>0.0\<close>: line 19 truncates the
  default like any other release.
\<close>

theorem absent_file_defaults:
  assumes "fs (version_file file) = None"
  shows "\<exists>c. conf_py fs file = ([Stat (version_file file)], Inr c) \<and>
           release c = str ''0.0.0'' \<and> version c = str ''0.0''"
proof -
  have "version_of (str ''0.0.0'') = str ''0.0''"
    by (simp add: version_of_def str_def dot_def)
  with assms show ?thesis
    by (simp add: conf_py_def read_release_absent)
qed

theorem absent_file_defaults_witness:
  "[str ''README.md'' \<mapsto> RegularFile (str ''Axion'')] (version_file (str ''docs/source/conf.py'')) = None \<and>
   (\<exists>c. conf_py [str ''README.md'' \<mapsto> RegularFile (str ''Axion'')] (str ''docs/source/conf.py'')
           = ([Stat (version_file (str ''docs/source/conf.py''))], Inr c) \<and>
         release c = str ''0.0.0'' \<and> version c = str ''0.0'')"
proof -
  let ?fs = "[str ''README.md'' \<mapsto> RegularFile (str ''Axion'')]"
  have h: "?fs (version_file (str ''docs/source/conf.py'')) = None"
    by (simp add: version_file_def os_path_join_def os_path_dirname_def str_def slash_def)
  from absent_file_defaults [of ?fs "str ''docs/source/conf.py''", OF h] h show ?thesis
    by blast
qed

text \<open>
  C2, as the specification states it, fails: on a file system without the version file
  \<open>release\<close> is \<open>0.0.0\<close> but \<open>version\<close> is \<open>0.0\<close>, not \<open>0.0.0\<close>.
\<close>

theorem absent_file_version_counterexample:
  "[str ''/repo/docs/source/conf.py'' \<mapsto> RegularFile (str ''project = 1'')]
     (version_file (str ''/repo/docs/source/conf.py'')) = None \<and>
   map_sum id release
     (snd (conf_py [str ''/repo/docs/source/conf.py'' \<mapsto> RegularFile (str ''project = 1'')]
             (str ''/repo/docs/source/conf.py'')))
     = Inr (str ''0.0.0'') \<and>
   map_sum id version
     (snd (conf_py [str ''/repo/docs/source/conf.py'' \<mapsto> RegularFile (str ''project = 1'')]
             (str ''/repo/docs/source/conf.py'')))
     = Inr (str ''0.0'') \<and>
   map_sum id version
     (snd (conf_py [str ''/repo/docs/source/conf.py'' \<mapsto> RegularFile (str ''project = 1'')]
             (str ''/repo/docs/source/conf.py'')))
     \<noteq> Inr (str ''0.0.0'')"
proof -
  let ?fs = "[str ''/repo/docs/source/conf.py'' \<mapsto> RegularFile (str ''project = 1'')]"
  have absent: "?fs (version_file (str ''/repo/docs/source/conf.py'')) = None"
    by (simp add: version_file_example) (simp add: str_def)
  have "version_of (str ''0.0.0'') = str ''0.0''"
    by (simp add: version_of_def str_def dot_def)
  moreover have "str ''0.0'' \<noteq> str ''0.0.0''"
    by (simp add: str_def)
  ultimately show ?thesis
    using absent by (simp add: conf_py_def read_release_absent)
qed

text \<open>
  C4, as the module does it. The guard of line 13 is \<open>os.path.exists\<close>, so the
  file is opened exactly when anything exists at the path, whatever its kind. The
  module completes exactly when nothing exists there or a readable text file does: in
  the first case only the test is made and \<open>release\<close> is the default, in the second
  the file is opened, read and closed and \<open>release\<close> is its stripped text. A
  directory at the path is opened too, and \<open>open\<close> raises.
\<close>

theorem release_source:
  "(Open (version_file file) \<in> set (fst (conf_py fs file)) \<longleftrightarrow> fs (version_file file) \<noteq> None) \<and>
   ((\<exists>c. snd (conf_py fs file) = Inr c) \<longleftrightarrow>
      (fs (version_file file) = None \<or> (\<exists>txt. fs (version_file file) = Some (RegularFile txt)))) \<and>
   (\<forall>txt. fs (version_file file) = Some (RegularFile txt) \<longrightarrow>
      fst (conf_py fs file) =
        [Stat (version_file file), Open (version_file file), Read (version_file file),
         Close (version_file file)] \<and>
      map_sum id release (snd (conf_py fs file)) = Inr (py_strip txt)) \<and>
   (fs (version_file file) = None \<longrightarrow>
      fst (conf_py fs file) = [Stat (version_file file)] \<and>
      map_sum id release (snd (conf_py fs file)) = Inr (str ''0.0.0'')) \<and>
   (fs (version_file file) = Some Directory \<longrightarrow>
      conf_py fs file =
        ([Stat (version_file file), Open (version_file file)], Inl IsADirectoryError))"
proof (cases rule: node_cases [of fs "version_file file"])
  case absent
  with conf_py_absent [of fs "file"] show ?thesis by auto
next
  case (regular t)
  with conf_py_regular [of fs "file" t] show ?thesis by auto
next
  case undecodable
  with conf_py_undecodable [of fs "file"] show ?thesis by simp
next
  case unreadable
  with conf_py_unreadable [of fs "file"] show ?thesis by simp
next
  case directory
  with conf_py_directory [of fs "file"] show ?thesis by simp
qed

theorem release_source_witness:
  "[str ''/srv/docs/source/../../.version'' \<mapsto> RegularFile (str '' 3.1.4'' @ [10])]
     (version_file (str ''/srv/docs/source/conf.py''))
     = Some (RegularFile (str '' 3.1.4'' @ [10])) \<and>
   fst (conf_py [str ''/srv/docs/source/../../.version'' \<mapsto> RegularFile (str '' 3.1.4'' @ [10])]
          (str ''/srv/docs/source/conf.py''))
     = [Stat (str ''/srv/docs/source/../../.version''), Open (str ''/srv/docs/source/../../.version''),
        Read (str ''/srv/docs/source/../../.version''), Close (str ''/srv/docs/source/../../.version'')] \<and>
   map_sum id release
     (snd (conf_py [str ''/srv/docs/source/../../.version'' \<mapsto> RegularFile (str '' 3.1.4'' @ [10])]
             (str ''/srv/docs/source/conf.py'')))
     = Inr (str ''3.1.4'') \<and>
   [str ''/srv/docs/source/conf.py'' \<mapsto> RegularFile (str ''project = 1'')]
     (version_file (str ''/srv/docs/source/conf.py'')) = None \<and>
   fst (conf_py [str ''/srv/docs/source/conf.py'' \<mapsto> RegularFile (str ''project = 1'')]
          (str ''/srv/docs/source/conf.py''))
     = [Stat (str ''/srv/docs/source/../../.version'')] \<and>
   map_sum id release
     (snd (conf_py [str ''/srv/docs/source/conf.py'' \<mapsto> RegularFile (str ''project = 1'')]
             (str ''/srv/docs/source/conf.py'')))
     = Inr (str ''0.0.0'') \<and>
   [str ''/srv/docs/source/../../.version'' \<mapsto> Directory]
     (version_file (str ''/srv/docs/source/conf.py'')) = Some Directory \<and>
   conf_py [str ''/srv/docs/source/../../.version'' \<mapsto> Directory]
     (str ''/srv/docs/source/conf.py'')
     = ([Stat (str ''/srv/docs/source/../../.version''),
         Open (str ''/srv/docs/source/../../.version'')], Inl IsADirectoryError)"
proof -
  let ?file = "str ''/srv/docs/source/conf.py''"
  let ?vf = "str ''/srv/docs/source/../../.version''"
  let ?reg = "[?vf \<mapsto> RegularFile (str '' 3.1.4'' @ [10])]"
  let ?abs = "[?file \<mapsto> RegularFile (str ''project = 1'')]"
  let ?dir = "[?vf \<mapsto> Directory]"
  have vf: "version_file ?file = ?vf"
    by (simp add: version_file_def os_path_join_def os_path_dirname_def str_def slash_def)
  have strip: "py_strip (str '' 3.1.4'' @ [10]) = str ''3.1.4''"
    by (simp add: py_strip_def py_isspace_def str_def)
  have reg: "?reg (version_file ?file) = Some (RegularFile (str '' 3.1.4'' @ [10]))"
    by (simp add: vf)
  have "?vf \<noteq> ?file"
    by (simp add: str_def)
  then have abs: "?abs (version_file ?file) = None"
    by (simp add: vf)
  have dir: "?dir (version_file ?file) = Some Directory"
    by (simp add: vf)
  have 1: "fst (conf_py ?reg ?file) = [Stat ?vf, Open ?vf, Read ?vf, Close ?vf]"
      "map_sum id release (snd (conf_py ?reg ?file)) = Inr (str ''3.1.4'')"
    using release_source [of ?file ?reg] reg by (simp_all add: vf strip)
  have 2: "fst (conf_py ?abs ?file) = [Stat ?vf]"
      "map_sum id release (snd (conf_py ?abs ?file)) = Inr (str ''0.0.0'')"
    using release_source [of ?file ?abs] abs by (simp_all add: vf)
  have 3: "conf_py ?dir ?file = ([Stat ?vf, Open ?vf], Inl IsADirectoryError)"
    using release_source [of ?file ?dir] dir by (simp add: vf)
  from reg abs dir 1 2 3 show ?thesis
    by simp
qed

text \<open>
  C4, as the specification states it, fails: with a directory at the path of the
  version file no regular file exists there, yet the default is not used; the module
  tries to open the directory and ends with \<open>IsADirectoryError\<close>.
\<close>

theorem release_source_counterexample:
  "[str ''/repo/docs/source/../../.version'' \<mapsto> Directory]
     (version_file (str ''/repo/docs/source/conf.py'')) = Some Directory \<and>
   conf_py [str ''/repo/docs/source/../../.version'' \<mapsto> Directory]
     (str ''/repo/docs/source/conf.py'')
     = ([Stat (str ''/repo/docs/source/../../.version''),
         Open (str ''/repo/docs/source/../../.version'')], Inl IsADirectoryError) \<and>
   map_sum id release
     (snd (conf_py [str ''/repo/docs/source/../../.version'' \<mapsto> Directory]
             (str ''/repo/docs/source/conf.py'')))
     \<noteq> Inr (str ''0.0.0'')"
proof -
  let ?fs = "[str ''/repo/docs/source/../../.version'' \<mapsto> Directory]"
  let ?file = "str ''/repo/docs/source/conf.py''"
  have "?fs (version_file ?file) = Some Directory"
    by (simp add: version_file_example)
  from this conf_py_directory [of ?fs ?file, OF this] show ?thesis
    by (simp add: version_file_example)
qed

text \<open>
  C5. A version file that reads as \<open>1.2.3\<close> and a newline gives \<open>release\<close>
  \<open>1.2.3\<close> and \<open>version\<close> \<open>1.2\<close>.
\<close>

theorem release_1_2_3:
  assumes "fs (version_file file) = Some (RegularFile (str ''1.2.3'' @ [10]))"
  shows "\<exists>c. snd (conf_py fs file) = Inr c \<and> release c = str ''1.2.3'' \<and>
           version c = str ''1.2''"
proof -
  have "py_strip (str ''1.2.3'' @ [10]) = str ''1.2.3''"
    by (simp add: py_strip_def py_isspace_def str_def)
  moreover have "version_of (str ''1.2.3'') = str ''1.2''"
    by (simp add: version_of_def str_def dot_def)
  ultimately show ?thesis
    using conf_py_regular [of fs "file", OF assms] by auto
qed

theorem release_1_2_3_witness:
  "[str ''/home/ci/axion/docs/source/../../.version'' \<mapsto> RegularFile (str ''1.2.3'' @ [10])]
     (version_file (str ''/home/ci/axion/docs/source/conf.py''))
     = Some (RegularFile (str ''1.2.3'' @ [10])) \<and>
   (\<exists>c. snd (conf_py [str ''/home/ci/axion/docs/source/../../.version'' \<mapsto>
                         RegularFile (str ''1.2.3'' @ [10])]
               (str ''/home/ci/axion/docs/source/conf.py'')) = Inr c \<and>
        release c = str ''1.2.3'' \<and> version c = str ''1.2'')"
proof -
  let ?fs = "[str ''/home/ci/axion/docs/source/../../.version'' \<mapsto>
                RegularFile (str ''1.2.3'' @ [10])]"
  let ?file = "str ''/home/ci/axion/docs/source/conf.py''"
  have h: "?fs (version_file ?file) = Some (RegularFile (str ''1.2.3'' @ [10]))"
    by (simp add: version_file_def os_path_join_def os_path_dirname_def str_def slash_def)
  from release_1_2_3 [of ?fs ?file, OF h] h show ?thesis
    by blast
qed

text \<open>
  C6. A version file that reads as two spaces, \<open>2.5\<close>, two spaces and a newline
  gives \<open>release\<close> \<open>2.5\<close> and \<open>version\<close> \<open>2.5\<close>.
\<close>

theorem release_surrounded_by_whitespace:
  assumes "fs (version_file file) = Some (RegularFile (str ''  2.5  '' @ [10]))"
  shows "\<exists>c. snd (conf_py fs file) = Inr c \<and> release c = str ''2.5'' \<and>
           version c = str ''2.5''"
proof -
  have "py_strip (str ''  2.5  '' @ [10]) = str ''2.5''"
    by (simp add: py_strip_def py_isspace_def str_def)
  moreover have "version_of (str ''2.5'') = str ''2.5''"
    by (simp add: version_of_def str_def dot_def)
  ultimately show ?thesis
    using conf_py_regular [of fs "file", OF assms] by auto
qed

theorem release_surrounded_by_whitespace_witness:
  "[str ''docs/source/../../.version'' \<mapsto> RegularFile (str ''  2.5  '' @ [10])]
     (version_file (str ''docs/source/conf.py''))
     = Some (RegularFile (str ''  2.5  '' @ [10])) \<and>
   (\<exists>c. snd (conf_py [str ''docs/source/../../.version'' \<mapsto>
                         RegularFile (str ''  2.5  '' @ [10])]
               (str ''docs/source/conf.py'')) = Inr c \<and>
        release c = str ''2.5'' \<and> version c = str ''2.5'')"
proof -
  let ?fs = "[str ''docs/source/../../.version'' \<mapsto> RegularFile (str ''  2.5  '' @ [10])]"
  let ?file = "str ''docs/source/conf.py''"
  have h: "?fs (version_file ?file) = Some (RegularFile (str ''  2.5  '' @ [10]))"
    by (simp add: version_file_def os_path_join_def os_path_dirname_def str_def slash_def)
  from release_surrounded_by_whitespace [of ?fs ?file, OF h] h show ?thesis
    by blast
qed

text \<open>
  C7. Whatever text the version file holds, the module completes, \<open>release\<close> is
  the stripped text and \<open>version\<close> is computed from it by line 19; for an empty
  file both are the empty string.
\<close>

theorem no_validation:
  assumes "fs (version_file file) = Some (RegularFile txt)"
  shows "\<exists>c. snd (conf_py fs file) = Inr c \<and> release c = py_strip txt \<and>
           version c = version_of (py_strip txt) \<and>
           (txt = [] \<longrightarrow> release c = [] \<and> version c = [])"
proof -
  have "py_strip [] = []"
    by (simp add: py_strip_def)
  moreover have "version_of [] = []"
    by (simp add: version_of_def)
  ultimately show ?thesis
    using conf_py_regular [of fs "file", OF assms] by auto
qed

theorem no_validation_witness:
  "[str ''conf/../../.version'' \<mapsto> RegularFile []] (version_file (str ''conf/conf.py''))
     = Some (RegularFile []) \<and>
   (\<exists>c. snd (conf_py [str ''conf/../../.version'' \<mapsto> RegularFile []] (str ''conf/conf.py''))
           = Inr c \<and>
        release c = [] \<and> version c = []) \<and>
   [str ''conf/../../.version'' \<mapsto> RegularFile (str ''v1.beta-2'')] (version_file (str ''conf/conf.py''))
     = Some (RegularFile (str ''v1.beta-2'')) \<and>
   (\<exists>c. snd (conf_py [str ''conf/../../.version'' \<mapsto> RegularFile (str ''v1.beta-2'')]
               (str ''conf/conf.py''))
           = Inr c \<and>
        release c = str ''v1.beta-2'' \<and> version c = str ''v1.beta-2'')"
proof -
  let ?file = "str ''conf/conf.py''"
  let ?e = "[str ''conf/../../.version'' \<mapsto> RegularFile []]"
  let ?b = "[str ''conf/../../.version'' \<mapsto> RegularFile (str ''v1.beta-2'')]"
  have vf: "version_file ?file = str ''conf/../../.version''"
    by (simp add: version_file_def os_path_join_def os_path_dirname_def str_def slash_def)
  have he: "?e (version_file ?file) = Some (RegularFile [])"
    by (simp add: vf)
  have hb: "?b (version_file ?file) = Some (RegularFile (str ''v1.beta-2''))"
    by (simp add: vf)
  have s: "py_strip (str ''v1.beta-2'') = str ''v1.beta-2''"
    by (simp add: py_strip_def py_isspace_def str_def)
  have v: "version_of (str ''v1.beta-2'') = str ''v1.beta-2''"
    by (simp add: version_of_def str_def dot_def)
  from no_validation [of ?e ?file "[]", OF he]
  have 1: "\<exists>c. snd (conf_py ?e ?file) = Inr c \<and> release c = [] \<and> version c = []"
    by blast
  from no_validation [of ?b ?file "str ''v1.beta-2''", OF hb]
  have 2: "\<exists>c. snd (conf_py ?b ?file) = Inr c \<and> release c = str ''v1.beta-2'' \<and>
             version c = str ''v1.beta-2''"
    unfolding s v by blast
  from he 1 hb 2 show ?thesis
    by (intro conjI)
qed

text \<open>
  C9. The expression of line 19 is idempotent on every string, and its value has at
  most two segments, that is, at most one dot.
\<close>

theorem version_of_idempotent:
  "version_of (version_of s) = version_of s \<and>
   length (py_split dot (version_of s)) \<le> 2 \<and>
   count_list (version_of s) dot \<le> 1"
proof -
  have "py_split dot (version_of s) = take 2 (py_split dot s)"
    by (rule py_split_version_of)
  then have idem: "version_of (version_of s) = version_of s"
    by (simp add: version_of_def [of "version_of s"]) (simp add: version_of_def)
  have len: "length (py_split dot (version_of s)) \<le> 2"
    by (simp add: py_split_version_of)
  then have "count_list (version_of s) dot \<le> 1"
    by (simp add: py_split_length)
  with idem len show ?thesis
    by simp
qed

theorem version_of_idempotent_witness:
  "version_of (str ''4.5.6.7'') = str ''4.5'' \<and>
   version_of (version_of (str ''4.5.6.7'')) = version_of (str ''4.5.6.7'') \<and>
   length (py_split dot (version_of (str ''4.5.6.7''))) \<le> 2 \<and>
   count_list (version_of (str ''4.5.6.7'')) dot \<le> 1"
proof -
  have "version_of (str ''4.5.6.7'') = str ''4.5''"
    by (simp add: version_of_def str_def dot_def)
  with version_of_idempotent [of "str ''4.5.6.7''"] show ?thesis
    by simp
qed

text \<open>
  C3. Whenever the module completes, \<open>version\<close> is a prefix of \<open>release\<close>
  made of at most its first two segments: it holds at most one dot, \<open>release\<close> is
  \<open>version\<close> followed by nothing or by a dot and more text, and \<open>version\<close> holds
  exactly one dot as soon as \<open>release\<close> holds any. In terms of line 19, its segments
  are the first two segments of \<open>release\<close>. A \<open>release\<close> with fewer than two
  segments, that is, without a dot, is copied unchanged, and so is one with a single dot.
\<close>

theorem version_prefix_of_release:
  assumes "snd (conf_py fs file) = Inr c"
  shows "prefix (version c) (release c) \<and>
         py_split dot (version c) = take 2 (py_split dot (release c)) \<and>
         (length (py_split dot (release c)) < 2 \<longrightarrow> version c = release c) \<and>
         (dot \<notin> set (release c) \<longrightarrow> version c = release c) \<and>
         count_list (version c) dot \<le> 1 \<and>
         (release c = version c \<or> (\<exists>t. release c = version c @ dot # t)) \<and>
         (dot \<in> set (release c) \<longrightarrow> count_list (version c) dot = 1) \<and>
         (count_list (release c) dot \<le> 1 \<longrightarrow> version c = release c)"
proof -
  from conf_py_Inr [OF assms] have v: "version c = version_of (release c)"
    by simp
  have old: "prefix (version c) (release c) \<and>
      py_split dot (version c) = take 2 (py_split dot (release c)) \<and>
      (length (py_split dot (release c)) < 2 \<longrightarrow> version c = release c) \<and>
      (dot \<notin> set (release c) \<longrightarrow> version c = release c)"
    unfolding v
    using version_of_prefix [of "release c"] py_split_version_of [of "release c"]
      version_of_no_dot [of "release c"] py_split_single_iff [of dot "release c"]
    by blast
  have new: "count_list (version c) dot \<le> 1 \<and>
      (release c = version c \<or> (\<exists>t. release c = version c @ dot # t)) \<and>
      (dot \<in> set (release c) \<longrightarrow> count_list (version c) dot = 1) \<and>
      (count_list (release c) dot \<le> 1 \<longrightarrow> version c = release c)"
    unfolding v
    using version_of_dots [of "release c"] version_of_cut [of "release c"]
      version_of_one_dot [of "release c"] version_of_few_dots [of "release c"]
    by blast
  from old new show ?thesis
    by blast
qed

theorem version_prefix_of_release_witness:
  "(\<exists>c. snd (conf_py [str ''/repo/docs/source/../../.version'' \<mapsto> RegularFile (str ''7'')]
             (str ''/repo/docs/source/conf.py'')) = Inr c \<and>
        release c = str ''7'' \<and> version c = str ''7'' \<and>
        length (py_split dot (release c)) < 2 \<and> dot \<notin> set (release c) \<and>
        count_list (release c) dot \<le> 1 \<and>
        prefix (version c) (release c) \<and>
        py_split dot (version c) = take 2 (py_split dot (release c))) \<and>
   (\<exists>c. snd (conf_py [str ''/repo/docs/source/../../.version'' \<mapsto>
                         RegularFile (str ''2.10.3.rc1'' @ [10])]
             (str ''/repo/docs/source/conf.py'')) = Inr c \<and>
        release c = str ''2.10.3.rc1'' \<and> version c = str ''2.10'' \<and>
        dot \<in> set (release c) \<and>
        prefix (version c) (release c) \<and>
        count_list (version c) dot = 1 \<and>
        release c = version c @ dot # str ''3.rc1'')"
proof -
  let ?one = "[str ''/repo/docs/source/../../.version'' \<mapsto> RegularFile (str ''7'')]"
  let ?four = "[str ''/repo/docs/source/../../.version'' \<mapsto>
                  RegularFile (str ''2.10.3.rc1'' @ [10])]"
  let ?file = "str ''/repo/docs/source/conf.py''"
  have "?one (version_file ?file) = Some (RegularFile (str ''7''))"
    by (simp add: version_file_example)
  from conf_py_regular [of ?one ?file, OF this] obtain c where
    c: "snd (conf_py ?one ?file) = Inr c" and r: "release c = py_strip (str ''7'')"
    by fastforce
  have r7: "release c = str ''7''"
    by (simp add: r py_strip_def py_isspace_def str_def)
  have short: "length (py_split dot (release c)) < 2" "dot \<notin> set (release c)"
      "count_list (release c) dot \<le> 1"
    by (simp_all add: r7 str_def dot_def)
  from version_prefix_of_release [OF c] c r7 short
  have 1: "\<exists>c. snd (conf_py ?one ?file) = Inr c \<and>
        release c = str ''7'' \<and> version c = str ''7'' \<and>
        length (py_split dot (release c)) < 2 \<and> dot \<notin> set (release c) \<and>
        count_list (release c) dot \<le> 1 \<and>
        prefix (version c) (release c) \<and>
        py_split dot (version c) = take 2 (py_split dot (release c))"
    by (intro exI [of _ c]) simp
  have "?four (version_file ?file) = Some (RegularFile (str ''2.10.3.rc1'' @ [10]))"
    by (simp add: version_file_example)
  from conf_py_regular [of ?four ?file, OF this] obtain k where
    k: "snd (conf_py ?four ?file) = Inr k"
    and rk: "release k = py_strip (str ''2.10.3.rc1'' @ [10])"
    by fastforce
  have r4: "release k = str ''2.10.3.rc1''"
    by (simp add: rk py_strip_def py_isspace_def str_def)
  have has: "dot \<in> set (release k)"
    by (simp add: r4 str_def dot_def)
  from version_prefix_of_release [OF k] has
  have p: "prefix (version k) (release k)" "count_list (version k) dot = 1"
      "release k = version k \<or> (\<exists>t. release k = version k @ dot # t)"
    by blast+
  from conf_py_Inr [OF k] have "version k = version_of (str ''2.10.3.rc1'')"
    by (simp add: r4)
  then have v4: "version k = str ''2.10''"
    by (simp add: version_of_def str_def dot_def)
  have tail: "release k = version k @ dot # str ''3.rc1''"
    by (simp add: r4 v4 str_def dot_def)
  from k r4 v4 has p tail
  have 2: "\<exists>c. snd (conf_py ?four ?file) = Inr c \<and>
        release c = str ''2.10.3.rc1'' \<and> version c = str ''2.10'' \<and>
        dot \<in> set (release c) \<and>
        prefix (version c) (release c) \<and>
        count_list (version c) dot = 1 \<and>
        release c = version c @ dot # str ''3.rc1''"
    by (intro exI [of _ k]) simp
  from 1 2 show ?thesis
    by (intro conjI)
qed

text \<open>
  C8, as the module does it. The settings are assigned on lines 22 to 41, after the
  version file has been read. When nothing exists at the path of the version file or a
  readable text file does, the module completes and, whatever the file holds,
  \<open>extensions\<close> is the list of the three names \<open>sphinx.ext.viewcode\<close>,
  \<open>sphinx.ext.intersphinx\<close> and \<open>myst_parser\<close> in this order, \<open>html_theme\<close> is
  \<open>sphinx_rtd_theme\<close>, and \<open>source_suffix\<close> maps \<open>.rst\<close> to
  \<open>restructuredtext\<close>, \<open>.md\<close> to \<open>markdown\<close> and nothing else. When a
  directory or a file that cannot be opened or decoded exists there, the module ends
  with an exception on line 14 or 15 and sets none of them.
\<close>

theorem static_settings:
  "((fs (version_file file) = None \<or> (\<exists>t. fs (version_file file) = Some (RegularFile t))) \<longrightarrow>
      (\<exists>c. snd (conf_py fs file) = Inr c \<and>
           extensions c =
             [str ''sphinx.ext.viewcode'', str ''sphinx.ext.intersphinx'', str ''myst_parser''] \<and>
           length (extensions c) = 3 \<and>
           html_theme c = str ''sphinx_rtd_theme'' \<and>
           source_suffix c =
             [(str ''.rst'', str ''restructuredtext''), (str ''.md'', str ''markdown'')] \<and>
           map_of (source_suffix c) =
             [str ''.rst'' \<mapsto> str ''restructuredtext'', str ''.md'' \<mapsto> str ''markdown''] \<and>
           dom (map_of (source_suffix c)) = {str ''.rst'', str ''.md''})) \<and>
   ((fs (version_file file) = Some Directory \<or> fs (version_file file) = Some Unreadable \<or>
     fs (version_file file) = Some Undecodable) \<longrightarrow>
      (\<exists>e. snd (conf_py fs file) = Inl e))"
proof (intro conjI impI)
  assume "fs (version_file file) = None \<or> (\<exists>t. fs (version_file file) = Some (RegularFile t))"
  then obtain c where c: "snd (conf_py fs file) = Inr c"
    using conf_py_absent [of fs "file"] conf_py_regular [of fs "file"] by fastforce
  have ne: "str ''.rst'' \<noteq> str ''.md''"
    by (simp add: str_def)
  from conf_py_static [OF c] ne
  have "extensions c =
          [str ''sphinx.ext.viewcode'', str ''sphinx.ext.intersphinx'', str ''myst_parser''] \<and>
        length (extensions c) = 3 \<and>
        html_theme c = str ''sphinx_rtd_theme'' \<and>
        source_suffix c =
          [(str ''.rst'', str ''restructuredtext''), (str ''.md'', str ''markdown'')] \<and>
        map_of (source_suffix c) =
          [str ''.rst'' \<mapsto> str ''restructuredtext'', str ''.md'' \<mapsto> str ''markdown''] \<and>
        dom (map_of (source_suffix c)) = {str ''.rst'', str ''.md''}"
    by (auto simp: fun_eq_iff)
  with c show "\<exists>c. snd (conf_py fs file) = Inr c \<and>
        extensions c =
          [str ''sphinx.ext.viewcode'', str ''sphinx.ext.intersphinx'', str ''myst_parser''] \<and>
        length (extensions c) = 3 \<and>
        html_theme c = str ''sphinx_rtd_theme'' \<and>
        source_suffix c =
          [(str ''.rst'', str ''restructuredtext''), (str ''.md'', str ''markdown'')] \<and>
        map_of (source_suffix c) =
          [str ''.rst'' \<mapsto> str ''restructuredtext'', str ''.md'' \<mapsto> str ''markdown''] \<and>
        dom (map_of (source_suffix c)) = {str ''.rst'', str ''.md''}"
    by blast
next
  assume "fs (version_file file) = Some Directory \<or> fs (version_file file) = Some Unreadable \<or>
     fs (version_file file) = Some Undecodable"
  then show "\<exists>e. snd (conf_py fs file) = Inl e"
    using conf_py_directory [of fs "file"] conf_py_unreadable [of fs "file"]
      conf_py_undecodable [of fs "file"]
    by auto
qed

theorem static_settings_witness:
  "[str ''/w/docs/source/../../.version'' \<mapsto> RegularFile (str ''0.9.1'')]
     (version_file (str ''/w/docs/source/conf.py'')) = Some (RegularFile (str ''0.9.1'')) \<and>
   (\<exists>c. snd (conf_py [str ''/w/docs/source/../../.version'' \<mapsto> RegularFile (str ''0.9.1'')]
             (str ''/w/docs/source/conf.py'')) = Inr c \<and>
        extensions c =
          [str ''sphinx.ext.viewcode'', str ''sphinx.ext.intersphinx'', str ''myst_parser''] \<and>
        length (extensions c) = 3 \<and>
        html_theme c = str ''sphinx_rtd_theme'' \<and>
        source_suffix c = [(str ''.rst'', str ''restructuredtext''), (str ''.md'', str ''markdown'')] \<and>
        map_of (source_suffix c) =
          [str ''.rst'' \<mapsto> str ''restructuredtext'', str ''.md'' \<mapsto> str ''markdown''] \<and>
        dom (map_of (source_suffix c)) = {str ''.rst'', str ''.md''}) \<and>
   [str ''/w/docs/source/../../.version'' \<mapsto> Unreadable]
     (version_file (str ''/w/docs/source/conf.py'')) = Some Unreadable \<and>
   (\<exists>e. snd (conf_py [str ''/w/docs/source/../../.version'' \<mapsto> Unreadable]
             (str ''/w/docs/source/conf.py'')) = Inl e)"
proof -
  let ?reg = "[str ''/w/docs/source/../../.version'' \<mapsto> RegularFile (str ''0.9.1'')]"
  let ?bad = "[str ''/w/docs/source/../../.version'' \<mapsto> Unreadable]"
  let ?file = "str ''/w/docs/source/conf.py''"
  have vf: "version_file ?file = str ''/w/docs/source/../../.version''"
    by (simp add: version_file_def os_path_join_def os_path_dirname_def str_def slash_def)
  have reg: "?reg (version_file ?file) = Some (RegularFile (str ''0.9.1''))"
    by (simp add: vf)
  have bad: "?bad (version_file ?file) = Some Unreadable"
    by (simp add: vf)
  from static_settings [of ?reg ?file] reg
  have 1: "\<exists>c. snd (conf_py ?reg ?file) = Inr c \<and>
        extensions c =
          [str ''sphinx.ext.viewcode'', str ''sphinx.ext.intersphinx'', str ''myst_parser''] \<and>
        length (extensions c) = 3 \<and>
        html_theme c = str ''sphinx_rtd_theme'' \<and>
        source_suffix c = [(str ''.rst'', str ''restructuredtext''), (str ''.md'', str ''markdown'')] \<and>
        map_of (source_suffix c) =
          [str ''.rst'' \<mapsto> str ''restructuredtext'', str ''.md'' \<mapsto> str ''markdown''] \<and>
        dom (map_of (source_suffix c)) = {str ''.rst'', str ''.md''}"
    by blast
  from static_settings [of ?bad ?file] bad
  have 2: "\<exists>e. snd (conf_py ?bad ?file) = Inl e"
    by blast
  from reg 1 bad 2 show ?thesis
    by (intro conjI)
qed

text \<open>
  C8, as the specification states it, fails: the settings are not independent of the
  version file. With a directory at its path the module ends with
  \<open>IsADirectoryError\<close> before line 22, and no extensions, theme or suffix mapping
  result.
\<close>

theorem static_settings_counterexample:
  "[str ''/w/docs/source/../../.version'' \<mapsto> Directory]
     (version_file (str ''/w/docs/source/conf.py'')) = Some Directory \<and>
   snd (conf_py [str ''/w/docs/source/../../.version'' \<mapsto> Directory]
          (str ''/w/docs/source/conf.py'')) = Inl IsADirectoryError \<and>
   map_sum id extensions
     (snd (conf_py [str ''/w/docs/source/../../.version'' \<mapsto> Directory]
             (str ''/w/docs/source/conf.py'')))
     \<noteq> Inr [str ''sphinx.ext.viewcode'', str ''sphinx.ext.intersphinx'', str ''myst_parser''] \<and>
   map_sum id html_theme
     (snd (conf_py [str ''/w/docs/source/../../.version'' \<mapsto> Directory]
             (str ''/w/docs/source/conf.py'')))
     \<noteq> Inr (str ''sphinx_rtd_theme'') \<and>
   map_sum id source_suffix
     (snd (conf_py [str ''/w/docs/source/../../.version'' \<mapsto> Directory]
             (str ''/w/docs/source/conf.py'')))
     \<noteq> Inr [(str ''.rst'', str ''restructuredtext''), (str ''.md'', str ''markdown'')]"
proof -
  let ?fs = "[str ''/w/docs/source/../../.version'' \<mapsto> Directory]"
  let ?file = "str ''/w/docs/source/conf.py''"
  have vf: "version_file ?file = str ''/w/docs/source/../../.version''"
    by (simp add: version_file_def os_path_join_def os_path_dirname_def str_def slash_def)
  have d: "?fs (version_file ?file) = Some Directory"
    by (simp add: vf)
  from d conf_py_directory [of ?fs ?file, OF d] show ?thesis
    by simp
qed

text \<open>
  C10, as the module does it. For a fixed codec of text mode, the variables the module
  defines, or the exception it ends with, are a function of what the disk holds at the
  one path \<open>os.path.join(os.path.dirname(__file__), '../../.version')\<close>: two runs,
  on any two disks and from any two locations of the module, that find the same thing
  there (nothing, a directory, or a file with the same bytes) end alike, and a run
  touches no other path.
\<close>

theorem outputs_depend_on_version_file_only:
  assumes "d (os_path_join (os_path_dirname file) (str ''../../.version''))
         = d' (os_path_join (os_path_dirname file') (str ''../../.version''))"
  shows "snd (conf_py (text_view dec d) file) = snd (conf_py (text_view dec d') file') \<and>
         set (fst (conf_py (text_view dec d) file)) \<subseteq>
           {Stat (os_path_join (os_path_dirname file) (str ''../../.version'')),
            Open (os_path_join (os_path_dirname file) (str ''../../.version'')),
            Read (os_path_join (os_path_dirname file) (str ''../../.version'')),
            Close (os_path_join (os_path_dirname file) (str ''../../.version''))}"
proof -
  from assms have "text_view dec d (version_file file) = text_view dec d' (version_file file')"
    unfolding version_file_def by (rule text_view_same)
  then have "snd (conf_py (text_view dec d) file) = snd (conf_py (text_view dec d') file')"
    by (rule conf_py_same_node)
  moreover note conf_py_trace [of "text_view dec d" "file", unfolded version_file_def]
  ultimately show ?thesis
    by simp
qed

theorem outputs_depend_on_version_file_only_witness:
  "[str ''/a/docs/source/../../.version'' \<mapsto> FileBytes (''6.1.0'' @ [CHR 0x0D, CHR 0x0A]),
    str ''/a/README.md'' \<mapsto> FileBytes ''Axion'']
     (os_path_join (os_path_dirname (str ''/a/docs/source/conf.py'')) (str ''../../.version''))
   = [str ''../../.version'' \<mapsto> FileBytes (''6.1.0'' @ [CHR 0x0D, CHR 0x0A]),
      str ''/etc'' \<mapsto> DirNode]
     (os_path_join (os_path_dirname (str ''conf.py'')) (str ''../../.version'')) \<and>
   os_path_join (os_path_dirname (str ''/a/docs/source/conf.py'')) (str ''../../.version'')
   = str ''/a/docs/source/../../.version'' \<and>
   snd (conf_py (text_view codec_utf_8
                   [str ''/a/docs/source/../../.version'' \<mapsto>
                      FileBytes (''6.1.0'' @ [CHR 0x0D, CHR 0x0A]),
                    str ''/a/README.md'' \<mapsto> FileBytes ''Axion''])
          (str ''/a/docs/source/conf.py''))
   = snd (conf_py (text_view codec_utf_8
                     [str ''../../.version'' \<mapsto> FileBytes (''6.1.0'' @ [CHR 0x0D, CHR 0x0A]),
                      str ''/etc'' \<mapsto> DirNode])
            (str ''conf.py'')) \<and>
   map_sum id release
     (snd (conf_py (text_view codec_utf_8
                      [str ''/a/docs/source/../../.version'' \<mapsto>
                         FileBytes (''6.1.0'' @ [CHR 0x0D, CHR 0x0A]),
                       str ''/a/README.md'' \<mapsto> FileBytes ''Axion''])
             (str ''/a/docs/source/conf.py'')))
   = Inr (str ''6.1.0'') \<and>
   set (fst (conf_py (text_view codec_utf_8
                        [str ''/a/docs/source/../../.version'' \<mapsto>
                           FileBytes (''6.1.0'' @ [CHR 0x0D, CHR 0x0A]),
                         str ''/a/README.md'' \<mapsto> FileBytes ''Axion''])
               (str ''/a/docs/source/conf.py'')))
   \<subseteq> {Stat (str ''/a/docs/source/../../.version''), Open (str ''/a/docs/source/../../.version''),
        Read (str ''/a/docs/source/../../.version''), Close (str ''/a/docs/source/../../.version'')}"
proof -
  let ?bytes = "''6.1.0'' @ [CHR 0x0D, CHR 0x0A]"
  let ?d = "[str ''/a/docs/source/../../.version'' \<mapsto> FileBytes ?bytes,
             str ''/a/README.md'' \<mapsto> FileBytes ''Axion'']"
  let ?d' = "[str ''../../.version'' \<mapsto> FileBytes ?bytes, str ''/etc'' \<mapsto> DirNode]"
  let ?file = "str ''/a/docs/source/conf.py''"
  let ?vf = "str ''/a/docs/source/../../.version''"
  have p: "os_path_join (os_path_dirname ?file) (str ''../../.version'') = ?vf"
    by (simp add: os_path_join_def os_path_dirname_def str_def slash_def)
  have p': "os_path_join (os_path_dirname (str ''conf.py'')) (str ''../../.version'')
      = str ''../../.version''"
    by (simp add: os_path_join_def os_path_dirname_def str_def slash_def)
  have "str ''/a/README.md'' \<noteq> ?vf"
    by (simp add: str_def)
  then have l: "?d ?vf = Some (FileBytes ?bytes)"
    by simp
  have "str ''/etc'' \<noteq> str ''../../.version''"
    by (simp add: str_def)
  then have r: "?d' (str ''../../.version'') = Some (FileBytes ?bytes)"
    by simp
  have h: "?d (os_path_join (os_path_dirname ?file) (str ''../../.version''))
      = ?d' (os_path_join (os_path_dirname (str ''conf.py'')) (str ''../../.version''))"
    unfolding p p' using l r by simp
  have dec: "codec_utf_8 ?bytes = Some (str ''6.1.0'' @ [13, 10])"
    by (simp add: codec_utf_8_def str_def)
  have nl: "universal_newlines (str ''6.1.0'' @ [13, 10]) = str ''6.1.0'' @ [10]"
    by (simp add: str_def)
  have node: "text_view codec_utf_8 ?d (version_file ?file) = Some (RegularFile (str ''6.1.0'' @ [10]))"
    unfolding version_file_def p by (simp only: text_view_def l dec nl option.case disk_node.case)
  have s: "py_strip (str ''6.1.0'' @ [10]) = str ''6.1.0''"
    by (simp add: py_strip_def py_isspace_def str_def)
  from conf_py_regular [of "text_view codec_utf_8 ?d" ?file, OF node]
  have rel: "map_sum id release (snd (conf_py (text_view codec_utf_8 ?d) ?file)) = Inr (str ''6.1.0'')"
    unfolding s by auto
  from outputs_depend_on_version_file_only [of ?d ?file ?d' "str ''conf.py''" codec_utf_8, OF h]
  have main: "snd (conf_py (text_view codec_utf_8 ?d) ?file)
        = snd (conf_py (text_view codec_utf_8 ?d') (str ''conf.py''))"
      "set (fst (conf_py (text_view codec_utf_8 ?d) ?file))
        \<subseteq> {Stat ?vf, Open ?vf, Read ?vf, Close ?vf}"
    unfolding p by blast+
  from h p main rel show ?thesis
    by (intro conjI)
qed

text \<open>
  C10, as the specification states it, fails: the outputs do not depend on the file
  alone. Line 14 names no encoding, so one and the same disk, with the bytes
  \<open>C2 A0 31 2E 32 2E 33\<close> in the version file, gives \<open>release\<close> \<open>1.2.3\<close> and
  \<open>version\<close> \<open>1.2\<close> under \<open>utf-8\<close>, a \<open>release\<close> of seven characters
  and a \<open>version\<close> of five under \<open>latin-1\<close>, and \<open>UnicodeDecodeError\<close> under
  \<open>ascii\<close>.
\<close>

theorem outputs_depend_on_version_file_only_counterexample:
  "map_sum id release
     (snd (conf_py (text_view codec_utf_8
                      [str ''/a/docs/source/../../.version'' \<mapsto>
                         FileBytes ([CHR 0xC2, CHR 0xA0] @ ''1.2.3'')])
             (str ''/a/docs/source/conf.py'')))
   = Inr (str ''1.2.3'') \<and>
   map_sum id version
     (snd (conf_py (text_view codec_utf_8
                      [str ''/a/docs/source/../../.version'' \<mapsto>
                         FileBytes ([CHR 0xC2, CHR 0xA0] @ ''1.2.3'')])
             (str ''/a/docs/source/conf.py'')))
   = Inr (str ''1.2'') \<and>
   map_sum id release
     (snd (conf_py (text_view codec_latin_1
                      [str ''/a/docs/source/../../.version'' \<mapsto>
                         FileBytes ([CHR 0xC2, CHR 0xA0] @ ''1.2.3'')])
             (str ''/a/docs/source/conf.py'')))
   = Inr (194 # 160 # str ''1.2.3'') \<and>
   map_sum id version
     (snd (conf_py (text_view codec_latin_1
                      [str ''/a/docs/source/../../.version'' \<mapsto>
                         FileBytes ([CHR 0xC2, CHR 0xA0] @ ''1.2.3'')])
             (str ''/a/docs/source/conf.py'')))
   = Inr (194 # 160 # str ''1.2'') \<and>
   snd (conf_py (text_view codec_ascii
                   [str ''/a/docs/source/../../.version'' \<mapsto>
                      FileBytes ([CHR 0xC2, CHR 0xA0] @ ''1.2.3'')])
          (str ''/a/docs/source/conf.py''))
   = Inl UnicodeDecodeError \<and>
   snd (conf_py (text_view codec_utf_8
                   [str ''/a/docs/source/../../.version'' \<mapsto>
                      FileBytes ([CHR 0xC2, CHR 0xA0] @ ''1.2.3'')])
          (str ''/a/docs/source/conf.py''))
   \<noteq> snd (conf_py (text_view codec_latin_1
                     [str ''/a/docs/source/../../.version'' \<mapsto>
                        FileBytes ([CHR 0xC2, CHR 0xA0] @ ''1.2.3'')])
            (str ''/a/docs/source/conf.py''))"
proof -
  let ?bytes = "[CHR 0xC2, CHR 0xA0] @ ''1.2.3''"
  let ?d = "[str ''/a/docs/source/../../.version'' \<mapsto> FileBytes ?bytes]"
  let ?file = "str ''/a/docs/source/conf.py''"
  have vf: "version_file ?file = str ''/a/docs/source/../../.version''"
    by (simp add: version_file_def os_path_join_def os_path_dirname_def str_def slash_def)
  have l: "?d (version_file ?file) = Some (FileBytes ?bytes)"
    by (simp add: vf)
  have u: "codec_utf_8 ?bytes = Some (160 # str ''1.2.3'')"
    by (simp add: codec_utf_8_def str_def)
  have nu: "universal_newlines (160 # str ''1.2.3'') = 160 # str ''1.2.3''"
    by (simp add: str_def)
  have nodeu: "text_view codec_utf_8 ?d (version_file ?file) = Some (RegularFile (160 # str ''1.2.3''))"
    by (simp only: text_view_def l u nu option.case disk_node.case)
  have su: "py_strip (160 # str ''1.2.3'') = str ''1.2.3''"
    by (simp add: py_strip_def py_isspace_def str_def)
  have vu: "version_of (str ''1.2.3'') = str ''1.2''"
    by (simp add: version_of_def str_def dot_def)
  from conf_py_regular [of "text_view codec_utf_8 ?d" ?file, OF nodeu]
  have 1: "map_sum id release (snd (conf_py (text_view codec_utf_8 ?d) ?file)) = Inr (str ''1.2.3'')"
      "map_sum id version (snd (conf_py (text_view codec_utf_8 ?d) ?file)) = Inr (str ''1.2'')"
    unfolding su vu by auto
  have a: "codec_latin_1 ?bytes = Some (194 # 160 # str ''1.2.3'')"
    by (simp add: codec_latin_1_def str_def)
  have na: "universal_newlines (194 # 160 # str ''1.2.3'') = 194 # 160 # str ''1.2.3''"
    by (simp add: str_def)
  have nodea: "text_view codec_latin_1 ?d (version_file ?file)
      = Some (RegularFile (194 # 160 # str ''1.2.3''))"
    by (simp only: text_view_def l a na option.case disk_node.case)
  have sa: "py_strip (194 # 160 # str ''1.2.3'') = 194 # 160 # str ''1.2.3''"
    by (simp add: py_strip_def py_isspace_def str_def)
  have va: "version_of (194 # 160 # str ''1.2.3'') = 194 # 160 # str ''1.2''"
    by (simp add: version_of_def str_def dot_def)
  from conf_py_regular [of "text_view codec_latin_1 ?d" ?file, OF nodea]
  have 2: "map_sum id release (snd (conf_py (text_view codec_latin_1 ?d) ?file))
        = Inr (194 # 160 # str ''1.2.3'')"
      "map_sum id version (snd (conf_py (text_view codec_latin_1 ?d) ?file))
        = Inr (194 # 160 # str ''1.2'')"
    unfolding sa va by auto
  have c: "codec_ascii ?bytes = None"
    by (simp add: codec_ascii_def)
  have nodec: "text_view codec_ascii ?d (version_file ?file) = Some Undecodable"
    by (simp only: text_view_def l c option.case disk_node.case)
  from conf_py_undecodable [of "text_view codec_ascii ?d" ?file, OF nodec]
  have 3: "snd (conf_py (text_view codec_ascii ?d) ?file) = Inl UnicodeDecodeError"
    by simp
  have "str ''1.2.3'' \<noteq> 194 # 160 # str ''1.2.3''"
    by (simp add: str_def)
  with 1(1) 2(1) have 4: "snd (conf_py (text_view codec_utf_8 ?d) ?file)
      \<noteq> snd (conf_py (text_view codec_latin_1 ?d) ?file)"
    by auto
  from 1 2 3 4 show ?thesis
    by (intro conjI)
qed

end
